theory Spec2Isabelle
  imports
    Complex_Main
    "HOL-Library.AList"
    "HOL-Library.Char_ord"
    "HOL-Library.List_Lexorder"
    "HOL-Library.Product_Lexorder"
begin

section \<open>The Python values the web-fetch tool computes with\<close>

text \<open>
  The theory embeds \<^verbatim>\<open>src/tools/web-fetch/lib/web_fetch/main.py\<close>.

  A Python \<^verbatim>\<open>str\<close> is a HOL \<open>string\<close>, one \<open>char\<close> for each code point, so that
  \<open>length\<close> is Python's \<^verbatim>\<open>len\<close> of the string. The type \<open>char\<close> has 256 values: the
  model covers the code points up to U+00FF. A Python \<^verbatim>\<open>bytes\<close> is a list of byte values,
  kept apart from text: \<open>length\<close> of it is the number of bytes.
\<close>

type_synonym byte = nat
type_synonym bytes = "byte list"

subsection \<open>Exceptions\<close>

text \<open>
  The exception classes that the tool raises, catches or lets through, with Python's
  class hierarchy. An exception value carries its class and the text of \<^verbatim>\<open>str(e)\<close>
  (for a \<^verbatim>\<open>URLError\<close> the text of \<^verbatim>\<open>e.reason\<close>, for an \<^verbatim>\<open>HTTPError\<close> the text
  \<^verbatim>\<open>"{e.code} {e.reason}"\<close>).
\<close>

datatype exn_class =
    ValueError | UnicodeError | UnicodeDecodeError | JSONDecodeError
  | RuntimeError | LookupError | OverflowError
  | OSError | URLError | HTTPError | BadGzipFile
  | EOFError | ZlibError | HTTPException

datatype exn = Exn (cls: exn_class) (msg: string)

fun superclasses :: "exn_class \<Rightarrow> exn_class list" where
  "superclasses UnicodeError = [UnicodeError, ValueError]"
| "superclasses UnicodeDecodeError = [UnicodeDecodeError, UnicodeError, ValueError]"
| "superclasses JSONDecodeError = [JSONDecodeError, ValueError]"
| "superclasses URLError = [URLError, OSError]"
| "superclasses HTTPError = [HTTPError, URLError, OSError]"
| "superclasses BadGzipFile = [BadGzipFile, OSError]"
| "superclasses c = [c]"

definition isinstance :: "exn \<Rightarrow> exn_class \<Rightarrow> bool" where
  "isinstance e c = (c \<in> set (superclasses (cls e)))"

subsection \<open>String methods\<close>

definition is_digit :: "char \<Rightarrow> bool" where
  "is_digit c = (CHR ''0'' \<le> c \<and> c \<le> CHR ''9'')"

definition digit_val :: "char \<Rightarrow> int" where
  "digit_val c = of_char c - 48"

definition digits_val :: "string \<Rightarrow> int" where
  "digits_val ds = foldl (\<lambda>a c. 10 * a + digit_val c) 0 ds"

text \<open>\<^verbatim>\<open>str.isspace\<close> on one character, for the code points of the model.\<close>

definition py_isspace :: "char \<Rightarrow> bool" where
  "py_isspace c = (let n = (of_char c :: nat) in
     (9 \<le> n \<and> n \<le> 13) \<or> (28 \<le> n \<and> n \<le> 32) \<or> n = 133 \<or> n = 160)"

definition strip_with :: "(char \<Rightarrow> bool) \<Rightarrow> string \<Rightarrow> string" where
  "strip_with sp s = rev (dropWhile sp (rev (dropWhile sp s)))"

definition py_strip :: "string \<Rightarrow> string" where
  "py_strip s = strip_with py_isspace s"

text \<open>
  The whitespace that \<^verbatim>\<open>int\<close> and \<^verbatim>\<open>float\<close> drop around a literal: the same without
  the four separator characters U+001C to U+001F.
\<close>

definition num_isspace :: "char \<Rightarrow> bool" where
  "num_isspace c = (let n = (of_char c :: nat) in
     (9 \<le> n \<and> n \<le> 13) \<or> n = 32 \<or> n = 133 \<or> n = 160)"

text \<open>
  \<^verbatim>\<open>str.upper\<close> and \<^verbatim>\<open>str.lower\<close>, character by character: the letters of ASCII
  and of Latin-1. Three characters have their upper case outside the code points of
  the model (U+00B5, U+00DF, U+00FF); they are left as they are.
\<close>

definition upper_char :: "char \<Rightarrow> char" where
  "upper_char c =
     (let n = (of_char c :: nat) in
      if (97 \<le> n \<and> n \<le> 122) \<or> (224 \<le> n \<and> n \<le> 254 \<and> n \<noteq> 247) then char_of (n - 32) else c)"

definition lower_char :: "char \<Rightarrow> char" where
  "lower_char c =
     (let n = (of_char c :: nat) in
      if (65 \<le> n \<and> n \<le> 90) \<or> (192 \<le> n \<and> n \<le> 222 \<and> n \<noteq> 215) then char_of (n + 32) else c)"

definition py_upper :: "string \<Rightarrow> string" where
  "py_upper s = map upper_char s"

definition py_lower :: "string \<Rightarrow> string" where
  "py_lower s = map lower_char s"

definition endswith :: "string \<Rightarrow> string \<Rightarrow> bool" where
  "endswith s suffix = (length suffix \<le> length s \<and> drop (length s - length suffix) s = suffix)"

definition startswith :: "string \<Rightarrow> string \<Rightarrow> bool" where
  "startswith s pre = (take (length pre) s = pre)"

text \<open>\<^verbatim>\<open>sub in s\<close> for strings.\<close>

fun contains :: "string \<Rightarrow> string \<Rightarrow> bool" where
  "contains [] sub = (sub = [])"
| "contains (c # cs) sub = (startswith (c # cs) sub \<or> contains cs sub)"

text \<open>\<^verbatim>\<open>sep.join(parts)\<close>.\<close>

fun join :: "string \<Rightarrow> string list \<Rightarrow> string" where
  "join sep [] = []"
| "join sep [p] = p"
| "join sep (p # q # ps) = p @ sep @ join sep (q # ps)"

text \<open>\<^verbatim>\<open>str(n)\<close> for an integer, as an f-string renders it.\<close>

function digits_of :: "int \<Rightarrow> string" where
  "digits_of n =
     (if n < 10 then [char_of (48 + n)] else digits_of (n div 10) @ [char_of (48 + n mod 10)])"
  by pat_completeness auto
termination
  by (relation "measure nat") auto

definition str_int :: "int \<Rightarrow> string" where
  "str_int i = (if i < 0 then CHR ''-'' # digits_of (- i) else digits_of i)"

subsection \<open>Floating-point numbers\<close>

text \<open>
  A Python \<^verbatim>\<open>float\<close> is an IEEE 754 binary64 number: a finite value, kept here as the
  rational it denotes, an infinity (\<open>Inf True\<close> is the negative one) or a NaN. The sign
  of zero is not kept: \<^verbatim>\<open>int\<close> does not see it.
\<close>

datatype pyfloat = Finite rat | Inf bool | NaN

text \<open>\<^verbatim>\<open>int.bit_length\<close> of a positive integer.\<close>

function bit_length :: "int \<Rightarrow> nat" where
  "bit_length n = (if n \<le> 0 then 0 else Suc (bit_length (n div 2)))"
  by pat_completeness auto
termination
  by (relation "measure nat") auto

definition pow2 :: "int \<Rightarrow> rat" where
  "pow2 e = (if 0 \<le> e then 2 ^ nat e else 1 / 2 ^ nat (- e))"

text \<open>The exponent \<open>e\<close> with \<open>2^e \<le> q < 2^(e+1)\<close>, for a positive rational \<open>q\<close>.\<close>

definition ilog2 :: "rat \<Rightarrow> int" where
  "ilog2 q = (let (a, b) = quotient_of q;
                  e = int (bit_length a) - int (bit_length b)
              in if pow2 e \<le> q then e else e - 1)"

definition round_half_even :: "rat \<Rightarrow> int" where
  "round_half_even x = (let f = \<lfloor>x\<rfloor>; r = x - of_int f in
     if r < 1 / 2 then f else if 1 / 2 < r then f + 1 else if even f then f else f + 1)"

text \<open>
  Rounding a rational to the nearest binary64 number, ties to even: 53 bits of
  significand, subnormal numbers below \<open>2^-1022\<close>, an infinity from \<open>2^1024\<close> on.
\<close>

definition round_double :: "rat \<Rightarrow> pyfloat" where
  "round_double q =
     (if q = 0 then Finite 0
      else let a = \<bar>q\<bar>;
               e = max (ilog2 a) (- 1022);
               m = round_half_even (a * pow2 (52 - e))
           in if 1023 < e \<or> (e = 1023 \<and> m = 2 ^ 53) then Inf (q < 0)
              else Finite (sgn q * of_int m * pow2 (e - 52)))"

text \<open>\<^verbatim>\<open>num * multiplier\<close> for a float and an integer that is a binary64 number itself.\<close>

fun float_mul :: "pyfloat \<Rightarrow> int \<Rightarrow> pyfloat" where
  "float_mul (Finite q) k = round_double (q * of_int k)"
| "float_mul (Inf neg) k = (if k = 0 then NaN else Inf (neg \<noteq> (k < 0)))"
| "float_mul NaN k = NaN"

text \<open>\<^verbatim>\<open>int(x)\<close> for a float: truncation toward zero.\<close>

fun int_of_float :: "pyfloat \<Rightarrow> exn + int" where
  "int_of_float (Finite q) = Inr (if 0 \<le> q then \<lfloor>q\<rfloor> else \<lceil>q\<rceil>)"
| "int_of_float (Inf neg) = Inl (Exn OverflowError ''cannot convert float infinity to integer'')"
| "int_of_float NaN = Inl (Exn ValueError ''cannot convert float NaN to integer'')"

subsection \<open>Reading numbers from strings\<close>

text \<open>
  Underscores in a numeric literal stand between two digits only. The check keeps the
  previous character, as the interpreter's scan does; it starts from the NUL character.
\<close>

fun underscores_ok :: "char \<Rightarrow> string \<Rightarrow> bool" where
  "underscores_ok prev [] = (prev \<noteq> CHR ''_'')"
| "underscores_ok prev (c # cs) =
     (if c = CHR ''_'' then is_digit prev \<and> underscores_ok c cs
      else (if prev = CHR ''_'' then is_digit c else True) \<and> underscores_ok c cs)"

definition drop_underscores :: "string \<Rightarrow> string" where
  "drop_underscores s = filter (\<lambda>c. c \<noteq> CHR ''_'') s"

definition split_sign :: "string \<Rightarrow> bool \<times> string" where
  "split_sign s = (case s of
       [] \<Rightarrow> (False, [])
     | c # cs \<Rightarrow> if c = CHR ''-'' then (True, cs) else if c = CHR ''+'' then (False, cs) else (False, s))"

text \<open>
  \<^verbatim>\<open>int(s)\<close> for a string, base 10. (The interpreter's limit on the number of digits
  of such a string, 4300 unless configured, is left out.)
\<close>

definition py_int :: "string \<Rightarrow> exn + int" where
  "py_int s0 =
     (let (neg, body) = split_sign (strip_with num_isspace s0) in
      if body \<noteq> [] \<and> list_all (\<lambda>c. is_digit c \<or> c = CHR ''_'') body \<and> underscores_ok (CHR 0x00) body
      then Inr ((if neg then - 1 else 1) * digits_val (drop_underscores body))
      else Inl (Exn ValueError (''invalid literal for int() with base 10: '' @ s0)))"

text \<open>The exponent part of a float literal: empty, or \<^verbatim>\<open>e\<close>, a sign and digits.\<close>

definition parse_exponent :: "string \<Rightarrow> int option" where
  "parse_exponent s = (case s of
       [] \<Rightarrow> Some 0
     | c # cs \<Rightarrow>
         if c = CHR ''e'' \<or> c = CHR ''E'' then
           (let (neg, ds) = split_sign cs in
            if ds \<noteq> [] \<and> list_all is_digit ds
            then Some ((if neg then - 1 else 1) * digits_val ds) else None)
         else None)"

text \<open>
  The decimal number of a float literal without sign: digits, a point, digits (one of
  the two digit groups may be empty) and an exponent; the value is exact.
\<close>

definition parse_decimal :: "string \<Rightarrow> rat option" where
  "parse_decimal s =
     (let ip = takeWhile is_digit s; r1 = dropWhile is_digit s;
          (fp, r2) = (case r1 of
               [] \<Rightarrow> ([], [])
             | c # cs \<Rightarrow> if c = CHR ''.'' then (takeWhile is_digit cs, dropWhile is_digit cs)
                         else ([], r1))
      in if ip = [] \<and> fp = [] then None
         else (case parse_exponent r2 of
                 None \<Rightarrow> None
               | Some e \<Rightarrow>
                   (let m = of_int (digits_val (ip @ fp)); x = e - int (length fp)
                    in Some (if 0 \<le> x then m * 10 ^ nat x else m / 10 ^ nat (- x)))))"

text \<open>
  \<^verbatim>\<open>float(s)\<close> for a string: surrounding whitespace is dropped, underscores are
  checked and removed, then a sign and \<^verbatim>\<open>inf\<close>, \<^verbatim>\<open>infinity\<close>, \<^verbatim>\<open>nan\<close> (in any case)
  or a decimal number, rounded to binary64.
\<close>

definition py_float :: "string \<Rightarrow> exn + pyfloat" where
  "py_float s0 =
     (let s = strip_with num_isspace s0; bad = Inl (Exn ValueError (''could not convert string to float: '' @ s0)) in
      if \<not> underscores_ok (CHR 0x00) s then bad
      else let (neg, body) = split_sign (drop_underscores s); w = py_upper body in
           if w = ''INF'' \<or> w = ''INFINITY'' then Inr (Inf neg)
           else if w = ''NAN'' then Inr NaN
           else (case parse_decimal body of
                   None \<Rightarrow> bad
                 | Some q \<Rightarrow> Inr (round_double (if neg then - q else q))))"

section \<open>Size parser\<close>

text \<open>
  \<^verbatim>\<open>parse_size\<close>: the table of suffixes in the order the dictionary lists them, the
  loop over it, and the plain integer after the loop. In the loop a \<^verbatim>\<open>ValueError\<close> of
  \<^verbatim>\<open>float\<close> or of \<^verbatim>\<open>int\<close> is passed over and the next suffix is tried; any other
  exception leaves the function. \<open>None\<close> is the loop running to its end.
\<close>

definition multipliers :: "(string \<times> int) list" where
  "multipliers =
     [(''K'', 1024), (''KB'', 1024),
      (''M'', 1024 * 1024), (''MB'', 1024 * 1024),
      (''G'', 1024 * 1024 * 1024), (''GB'', 1024 * 1024 * 1024)]"

fun try_suffixes :: "string \<Rightarrow> (string \<times> int) list \<Rightarrow> (exn + int) option" where
  "try_suffixes size_str [] = None"
| "try_suffixes size_str ((suffix, multiplier) # rest) =
     (if endswith size_str suffix then
        (case py_float (take (length size_str - length suffix) size_str) of
           Inl e \<Rightarrow> if isinstance e ValueError then try_suffixes size_str rest else Some (Inl e)
         | Inr num \<Rightarrow>
             (case int_of_float (float_mul num multiplier) of
                Inl e \<Rightarrow> if isinstance e ValueError then try_suffixes size_str rest else Some (Inl e)
              | Inr n \<Rightarrow> Some (Inr n)))
      else try_suffixes size_str rest)"

definition parse_size :: "string \<Rightarrow> exn + int" where
  "parse_size s =
     (let size_str = py_upper (py_strip s) in
      case try_suffixes size_str multipliers of
        Some r \<Rightarrow> r
      | None \<Rightarrow>
          (case py_int size_str of
             Inr n \<Rightarrow> Inr n
           | Inl e \<Rightarrow> if isinstance e ValueError
                      then Inl (Exn ValueError (''Invalid size format: '' @ size_str))
                      else Inl e))"

section \<open>The world outside the tool\<close>

text \<open>
  The tool calls the HTTP transport, the compression and codec libraries, the JSON
  library, the optional HTML parser and the file system. None of them is code of the
  repository: they are the fields of a record, one function for each call the tool
  makes, and every definition below takes that record as its first argument. A call
  that can raise returns a sum, \<open>Inl\<close> the exception.

  A response is what \<^verbatim>\<open>urlopen\<close> hands back: the results of the successive
  \<^verbatim>\<open>response.read(8192)\<close> calls (a chunk of bytes or an exception; after the last
  element \<^verbatim>\<open>read\<close> returns the empty chunk), the header lines in order, the final URL
  and the status.
\<close>

record response =
  resp_reads :: "(exn + bytes) list"
  resp_headers :: "(string \<times> string) list"
  resp_url :: string
  resp_status :: int

record request =
  req_url :: string
  req_data :: "bytes option"
  req_headers :: "(string \<times> string) list"
  req_method :: string

datatype json =
    JNull | JBool bool | JInt int | JFloat pyfloat | JStr string
  | JArr "json list" | JObj "(string \<times> json) list"

record world =
  urlparse_scheme :: "string \<Rightarrow> string"
  urlopen :: "request \<Rightarrow> int \<Rightarrow> exn + response"
  gzip_decompress :: "bytes \<Rightarrow> exn + bytes"
  zlib_decompress :: "bytes \<Rightarrow> exn + bytes"
  zlib_decompress_raw :: "bytes \<Rightarrow> exn + bytes"
  bytes_decode :: "bytes \<Rightarrow> string \<Rightarrow> exn + string"
  decode_utf8_replace :: "bytes \<Rightarrow> exn + string"
  json_loads :: "string \<Rightarrow> exn + json"
  json_dumps :: "bool \<Rightarrow> json \<Rightarrow> string"
  beautiful_soup :: "(string \<Rightarrow> string option \<times> string option \<times> string) option"
  open_wb :: "string \<Rightarrow> exn option"

text \<open>
  \<open>zlib_decompress\<close> is \<^verbatim>\<open>zlib.decompress(content)\<close> and \<open>zlib_decompress_raw\<close> is
  \<^verbatim>\<open>zlib.decompress(content, -zlib.MAX_WBITS)\<close>; \<open>bytes_decode\<close> is
  \<^verbatim>\<open>content.decode(charset)\<close> and \<open>decode_utf8_replace\<close> is
  \<^verbatim>\<open>content.decode("utf-8", errors="replace")\<close>; \<open>json_dumps\<close> takes the value of
  \<^verbatim>\<open>ensure_ascii\<close> (the indentation is 2 in every call); \<open>beautiful_soup\<close> is \<open>None\<close>
  when the import of the parser failed, and otherwise gives the title, the description
  and the text that \<^verbatim>\<open>extract_html_text\<close> reads off the parsed page; \<open>open_wb\<close> is
  opening and writing a file, \<open>None\<close> when it succeeds.
\<close>

section \<open>Decompressor\<close>

definition decompress_content :: "world \<Rightarrow> bytes \<Rightarrow> string \<Rightarrow> exn + bytes" where
  "decompress_content W content encoding =
     (if encoding = ''gzip'' then gzip_decompress W content
      else if encoding = ''deflate'' then
        (case zlib_decompress W content of
           Inr plain \<Rightarrow> Inr plain
         | Inl e \<Rightarrow> if isinstance e ZlibError then zlib_decompress_raw W content else Inl e)
      else Inr content)"

section \<open>Content fetcher\<close>

record FetchResult =
  url :: string
  status :: int
  headers :: "(string \<times> string) list"
  content :: bytes
  content_type :: string
  charset :: string

text \<open>
  The read loop of \<^verbatim>\<open>fetch_url\<close>. The result is the buffer and the running total
  when the loop is left, and the exception that left it, if one did. The size error is
  raised before \<^verbatim>\<open>content.write(chunk)\<close>.
\<close>

definition size_exceeded :: "int \<Rightarrow> exn" where
  "size_exceeded max_size =
     Exn RuntimeError (''Response size exceeds maximum ('' @ str_int max_size @ '' bytes)'')"

fun read_loop :: "int \<Rightarrow> (exn + bytes) list \<Rightarrow> bytes \<Rightarrow> int \<Rightarrow> bytes \<times> int \<times> exn option" where
  "read_loop max_size [] buffer total_size = (buffer, total_size, None)"
| "read_loop max_size (Inl e # reads) buffer total_size = (buffer, total_size, Some e)"
| "read_loop max_size (Inr chunk # reads) buffer total_size =
     (if chunk = [] then (buffer, total_size, None)
      else if total_size + int (length chunk) > max_size
           then (buffer, total_size + int (length chunk), Some (size_exceeded max_size))
           else read_loop max_size reads (buffer @ chunk) (total_size + int (length chunk)))"

text \<open>
  \<^verbatim>\<open>response.headers.get(name, default)\<close>: the first header line of that name, the
  case of letters ignored. \<^verbatim>\<open>dict(response.headers)\<close> has one entry for each name as
  it is spelled, in the order of first appearance, with the value that lookup gives.
\<close>

definition header_get :: "(string \<times> string) list \<Rightarrow> string \<Rightarrow> string \<Rightarrow> string" where
  "header_get hs name fallback =
     (case find (\<lambda>(k, v). py_lower k = py_lower name) hs of
        None \<Rightarrow> fallback
      | Some (k, v) \<Rightarrow> v)"

definition dict_of_headers :: "(string \<times> string) list \<Rightarrow> (string \<times> string) list" where
  "dict_of_headers hs = foldl (\<lambda>d (k, v). AList.update k (header_get hs k []) d) [] hs"

text \<open>\<^verbatim>\<open>d.update(other)\<close> for dictionaries kept as association lists.\<close>

definition dict_update :: "(string \<times> string) list \<Rightarrow> (string \<times> string) list \<Rightarrow> (string \<times> string) list" where
  "dict_update d other = foldl (\<lambda>d (k, v). AList.update k v d) d other"

text \<open>\<^verbatim>\<open>s.split(sep)\<close> for a separator of one character.\<close>

fun split_char :: "char \<Rightarrow> string \<Rightarrow> string list" where
  "split_char sep [] = [[]]"
| "split_char sep (c # cs) =
     (if c = sep then [] # split_char sep cs
      else (case split_char sep cs of
              [] \<Rightarrow> [[c]]
            | p # ps \<Rightarrow> (c # p) # ps))"

text \<open>
  The scan of the parameters of \<^verbatim>\<open>Content-Type\<close>: the first part that contains
  \<^verbatim>\<open>charset=\<close> gives the charset, which is what follows the first \<^verbatim>\<open>=\<close> of that
  part, stripped of whitespace and then of quotes.
\<close>

definition is_quote :: "char \<Rightarrow> bool" where
  "is_quote c = (c = CHR 0x22 \<or> c = CHR 0x27)"

fun scan_charset :: "string list \<Rightarrow> string \<Rightarrow> string" where
  "scan_charset [] charset' = charset'"
| "scan_charset (part # parts) charset' =
     (if contains part ''charset=''
      then strip_with is_quote (py_strip (tl (dropWhile (\<lambda>c. c \<noteq> CHR ''='') part)))
      else scan_charset parts charset')"

text \<open>
  The body of the \<^verbatim>\<open>try\<close> statement of \<^verbatim>\<open>fetch_url\<close>: open, read under the cap,
  decompress when the response names an encoding, read the content type.
\<close>

definition fetch_try :: "world \<Rightarrow> request \<Rightarrow> int \<Rightarrow> int \<Rightarrow> exn + FetchResult" where
  "fetch_try W request timeout max_size =
     (case urlopen W request timeout of
        Inl e \<Rightarrow> Inl e
      | Inr response \<Rightarrow>
          (case read_loop max_size (resp_reads response) [] 0 of
             (buffer, total_size, Some e) \<Rightarrow> Inl e
           | (content_bytes, total_size, None) \<Rightarrow>
               (let headers_dict = dict_of_headers (resp_headers response);
                    encoding = py_lower (header_get (resp_headers response) ''Content-Encoding'' [])
                in case (if encoding \<noteq> [] then decompress_content W content_bytes encoding
                         else Inr content_bytes) of
                     Inl e \<Rightarrow> Inl e
                   | Inr content_bytes \<Rightarrow>
                       (let content_type' = header_get (resp_headers response) ''Content-Type''
                                              ''application/octet-stream'';
                            ct_parts = split_char (CHR '';'') content_type';
                            ct_main = py_lower (py_strip (hd ct_parts));
                            charset' = scan_charset (tl ct_parts) ''utf-8''
                        in Inr \<lparr>url = resp_url response, status = resp_status response,
                                 headers = headers_dict, content = content_bytes,
                                 content_type = ct_main, charset = charset'\<rparr>))))"

text \<open>
  The \<^verbatim>\<open>except\<close> clauses of \<^verbatim>\<open>fetch_url\<close>, in their order: the exception that
  leaves the function for an exception raised in the \<^verbatim>\<open>try\<close> body. An exception of
  no listed class passes unchanged.
\<close>

definition fetch_except :: "string \<Rightarrow> int \<Rightarrow> exn \<Rightarrow> exn" where
  "fetch_except url' timeout e =
     (if isinstance e HTTPError then Exn RuntimeError (''HTTP '' @ msg e @ '': '' @ url')
      else if isinstance e URLError then
        (if contains (py_lower (msg e)) ''timed out''
         then Exn RuntimeError (''Request timed out after '' @ str_int timeout @ ''s: '' @ url')
         else if contains (py_lower (msg e)) ''ssl''
         then Exn RuntimeError (''SSL error: '' @ url' @ '': '' @ msg e)
         else Exn RuntimeError (''Network error: '' @ url' @ '': '' @ msg e))
      else if isinstance e OSError then Exn RuntimeError (''Connection error: '' @ url' @ '': '' @ msg e)
      else e)"

text \<open>The request that \<^verbatim>\<open>fetch_url\<close> prepares: its own headers, updated by the caller's.\<close>

definition prepare_request ::
  "string \<Rightarrow> string \<Rightarrow> (string \<times> string) list \<Rightarrow> bytes option \<Rightarrow> string \<Rightarrow> request" where
  "prepare_request url' method headers' data user_agent =
     (let request_headers =
            dict_update
              [(''User-Agent'', user_agent), (''Accept'', ''*/*''),
               (''Accept-Encoding'', ''gzip, deflate'')]
              headers'
      in \<lparr>req_url = url', req_data = data, req_headers = request_headers, req_method = method\<rparr>)"

definition fetch_url ::
  "world \<Rightarrow> string \<Rightarrow> string \<Rightarrow> (string \<times> string) list \<Rightarrow> bytes option \<Rightarrow> int \<Rightarrow> int \<Rightarrow> string
     \<Rightarrow> exn + FetchResult" where
  "fetch_url W url' method headers' data timeout max_size user_agent =
     (let scheme = urlparse_scheme W url' in
      if scheme \<noteq> ''http'' \<and> scheme \<noteq> ''https''
      then Inl (Exn ValueError (''Only http and https URLs are supported, got: '' @ scheme))
      else
        (case fetch_try W (prepare_request url' method headers' data user_agent) timeout max_size of
           Inr result \<Rightarrow> Inr result
         | Inl e \<Rightarrow> Inl (fetch_except url' timeout e)))"

section \<open>Renderer\<close>

definition OUTPUT_TRUNCATE_SIZE :: nat where
  "OUTPUT_TRUNCATE_SIZE = 50 * 1024"

definition TEXT_CONTENT_TYPES :: "string list" where
  "TEXT_CONTENT_TYPES =
     [''text/html'', ''text/plain'', ''text/xml'', ''application/xml'', ''application/json'',
      ''application/javascript'', ''text/javascript'', ''application/x-javascript'', ''text/css'']"

definition newline :: string where
  "newline = [CHR 0x0A]"

text \<open>
  \<^verbatim>\<open>extract_html_text\<close> returns a dictionary of one of two shapes: an error with a
  preview of the raw page when the parser is missing, or the title, the description
  and the text.
\<close>

datatype extraction =
    Unavailable string string
  | Extracted "string option" "string option" string

definition extract_html_text :: "world \<Rightarrow> string \<Rightarrow> extraction" where
  "extract_html_text W html_content =
     (case beautiful_soup W of
        None \<Rightarrow>
          Unavailable ''BeautifulSoup not available - install beautifulsoup4''
            (if length html_content > 1000 then take 1000 html_content @ ''...'' else html_content)
      | Some soup \<Rightarrow> (case soup html_content of (t, d, x) \<Rightarrow> Extracted t d x))"

definition json_of_option :: "string option \<Rightarrow> json" where
  "json_of_option v = (case v of None \<Rightarrow> JNull | Some x \<Rightarrow> JStr x)"

definition json_of_extraction :: "extraction \<Rightarrow> json" where
  "json_of_extraction ex =
     (case ex of
        Unavailable err raw_html \<Rightarrow> JObj [(''error'', JStr err), (''raw_html'', JStr raw_html)]
      | Extracted t d x \<Rightarrow>
          JObj [(''title'', json_of_option t), (''description'', json_of_option d), (''text'', JStr x)])"

text \<open>\<^verbatim>\<open>bytes.decode("latin-1", errors="replace")\<close>: every byte is the code point of its value.\<close>

definition decode_latin1 :: "bytes \<Rightarrow> string" where
  "decode_latin1 bs = map char_of bs"

text \<open>
  The decoding of \<^verbatim>\<open>format_output\<close>: the declared charset; on a
  \<^verbatim>\<open>UnicodeDecodeError\<close> or a \<^verbatim>\<open>LookupError\<close>, UTF-8 with replacement; on any
  exception of that, Latin-1. An exception of the first attempt that is of neither
  class leaves \<^verbatim>\<open>format_output\<close>.
\<close>

definition decode_text :: "world \<Rightarrow> bytes \<Rightarrow> string \<Rightarrow> exn + string" where
  "decode_text W content' charset' =
     (case bytes_decode W content' charset' of
        Inr text \<Rightarrow> Inr text
      | Inl e \<Rightarrow>
          if isinstance e UnicodeDecodeError \<or> isinstance e LookupError then
            (case decode_utf8_replace W content' of
               Inr text \<Rightarrow> Inr text
             | Inl e' \<Rightarrow> Inr (decode_latin1 content'))
          else Inl e)"

definition is_text_type :: "string \<Rightarrow> bool" where
  "is_text_type ct = (list_ex (\<lambda>t. startswith ct t) TEXT_CONTENT_TYPES \<or> startswith ct ''text/'')"

text \<open>The lines that \<^verbatim>\<open>format_output\<close> collects before it looks at the content.\<close>

definition head_parts :: "FetchResult \<Rightarrow> bool \<Rightarrow> bool \<Rightarrow> string list" where
  "head_parts result show_headers json_output =
     (if \<not> json_output
      then [''URL: '' @ url result, ''Status: '' @ str_int (status result),
            ''Content-Type: '' @ content_type result,
            ''Size: '' @ str_int (int (length (content result))) @ '' bytes'']
      else [])
     @ (if show_headers \<and> \<not> json_output
        then (newline @ ''Headers:'') # map (\<lambda>(key, value). ''  '' @ key @ '': '' @ value) (sort (headers result))
        else [])"

text \<open>The dictionary of the JSON mode, for text content.\<close>

definition json_payload :: "world \<Rightarrow> FetchResult \<Rightarrow> bool \<Rightarrow> bool \<Rightarrow> string \<Rightarrow> exn + json" where
  "json_payload W result show_headers raw text =
     (let output_data =
            [(''url'', JStr (url result)), (''status'', JInt (status result)),
             (''content_type'', JStr (content_type result)),
             (''size'', JInt (int (length (content result))))]
            @ (if show_headers then [(''headers'', JObj (map (\<lambda>(k, v). (k, JStr v)) (headers result)))] else [])
      in if content_type result = ''application/json'' then
           (if py_strip text = [] then Inr (JObj (output_data @ [(''text'', JStr ''(empty body)'')]))
            else (case json_loads W text of
                    Inr parsed \<Rightarrow> Inr (JObj (output_data @ [(''json'', parsed)]))
                  | Inl e \<Rightarrow> if isinstance e JSONDecodeError
                             then Inr (JObj (output_data @ [(''text'', JStr text)]))
                             else Inl e))
         else if content_type result = ''text/html'' \<and> \<not> raw
         then Inr (JObj (output_data @ [(''html'', json_of_extraction (extract_html_text W text))]))
         else Inr (JObj (output_data @ [(''text'', JStr text)])))"

text \<open>The lines of the text mode, for text content, after the blank line.\<close>

definition text_parts :: "world \<Rightarrow> FetchResult \<Rightarrow> bool \<Rightarrow> string \<Rightarrow> exn + string list" where
  "text_parts W result raw text =
     (if content_type result = ''application/json'' then
        (if py_strip text = [] then Inr [''(empty body)'']
         else (case json_loads W text of
                 Inr parsed \<Rightarrow> Inr [json_dumps W False parsed]
               | Inl e \<Rightarrow> if isinstance e JSONDecodeError
                          then Inr [''Warning: Invalid JSON ('' @ msg e @ '')'', text]
                          else Inl e))
      else if content_type result = ''text/html'' \<and> \<not> raw then
        (case extract_html_text W text of
           Unavailable err raw_html \<Rightarrow>
             Inr [''Error: '' @ err, newline @ ''Raw HTML (truncated):'', raw_html]
         | Extracted t d x \<Rightarrow>
             Inr ((case t of None \<Rightarrow> [] | Some v \<Rightarrow> if v = [] then [] else [''Title: '' @ v])
                  @ (case d of None \<Rightarrow> [] | Some v \<Rightarrow> if v = [] then [] else [''Description: '' @ v])
                  @ [newline @ ''Content:'', x]))
      else Inr [text])"

text \<open>The last step of the text mode: the cut at \<^verbatim>\<open>OUTPUT_TRUNCATE_SIZE\<close> and the marker.\<close>

definition truncate_text :: "string \<Rightarrow> string" where
  "truncate_text result_text =
     (if length result_text > OUTPUT_TRUNCATE_SIZE
      then take OUTPUT_TRUNCATE_SIZE result_text
           @ newline @ newline @ ''... (truncated, showing first '' @ str_int (int OUTPUT_TRUNCATE_SIZE) @ '' bytes)''
      else result_text)"

definition format_output :: "world \<Rightarrow> FetchResult \<Rightarrow> bool \<Rightarrow> bool \<Rightarrow> bool \<Rightarrow> exn + string" where
  "format_output W result show_headers raw json_output =
     (let output_parts = head_parts result show_headers json_output in
      if \<not> is_text_type (content_type result) then
        (if json_output
         then Inr (json_dumps W True
                (JObj [(''url'', JStr (url result)), (''status'', JInt (status result)),
                       (''content_type'', JStr (content_type result)),
                       (''size'', JInt (int (length (content result)))),
                       (''binary'', JBool True),
                       (''message'', JStr ''Binary content - use --output to save to file'')]))
         else Inr (join newline
                (output_parts @ [newline @ ''Binary content detected.'', ''Use --output to save to a file.''])))
      else
        (case decode_text W (content result) (charset result) of
           Inl e \<Rightarrow> Inl e
         | Inr text \<Rightarrow>
             if json_output then
               (case json_payload W result show_headers raw text of
                  Inl e \<Rightarrow> Inl e
                | Inr output_data \<Rightarrow> Inr (json_dumps W False output_data))
             else
               (case text_parts W result raw text of
                  Inl e \<Rightarrow> Inl e
                | Inr parts \<Rightarrow> Inr (truncate_text (join newline (output_parts @ [[]] @ parts))))))"

section \<open>Batch orchestrator\<close>

text \<open>
  The parsed command line (\<^verbatim>\<open>args\<close>). \<open>arg_max_size\<close> is the string given to
  \<^verbatim>\<open>--max-size\<close>: \<^verbatim>\<open>main\<close> parses it.
\<close>

record args =
  arg_urls :: "string list"
  arg_headers :: bool
  arg_raw :: bool
  arg_json :: bool
  arg_method :: string
  arg_data :: "string option"
  arg_custom_headers :: "string list option"
  arg_timeout :: int
  arg_max_size :: string
  arg_output :: "string option"
  arg_user_agent :: string

text \<open>
  What a run has done so far: the two lists of \<^verbatim>\<open>main\<close>, the lines printed to the
  output and to the error stream, and the files written, in order (a later write to the
  same name replaces the file).
\<close>

record run =
  results :: "string list"
  errors :: "string list"
  stdout :: "string list"
  stderr :: "string list"
  files :: "(string \<times> bytes) list"

definition start :: run where
  "start = \<lparr>results = [], errors = [], stdout = [], stderr = [], files = []\<rparr>"

text \<open>How a run ends: \<^verbatim>\<open>sys.exit\<close> or the return of \<^verbatim>\<open>main\<close>, or an exception that nothing catches.\<close>

datatype ending = Exit int | Uncaught exn

text \<open>The exit status of the process: the interpreter ends with status 1 on an uncaught exception.\<close>

fun exit_status :: "ending \<Rightarrow> int" where
  "exit_status (Exit n) = n"
| "exit_status (Uncaught e) = 1"

text \<open>\<^verbatim>\<open>s.encode("utf-8")\<close> for the code points of the model.\<close>

definition utf8_encode :: "string \<Rightarrow> bytes" where
  "utf8_encode s =
     concat (map (\<lambda>c. let n = (of_char c :: nat) in
                        if n < 128 then [n] else [192 + n div 64, 128 + n mod 64]) s)"

text \<open>\<^verbatim>\<open>s.rsplit(".", 1)\<close> for a string that contains a point: the cut is at the last one.\<close>

definition rsplit_dot :: "string \<Rightarrow> string \<times> string" where
  "rsplit_dot s =
     (rev (tl (dropWhile (\<lambda>c. c \<noteq> CHR ''.'') (rev s))), rev (takeWhile (\<lambda>c. c \<noteq> CHR ''.'') (rev s)))"

text \<open>
  The name of the file for one fetched URL, from \<^verbatim>\<open>args.output\<close>, the number of URLs
  and the index put into the name, which is \<^verbatim>\<open>len(results)\<close>.
\<close>

definition output_file_name :: "string \<Rightarrow> nat \<Rightarrow> nat \<Rightarrow> string" where
  "output_file_name output' n_urls n_results =
     (if n_urls > 1 then
        (let (base, ext) = (if CHR ''.'' \<in> set output' then rsplit_dot output' else (output', []))
         in if ext \<noteq> [] then base @ ''_'' @ str_int (int n_results) @ ''.'' @ ext
            else base @ ''_'' @ str_int (int n_results))
      else output')"

text \<open>
  The \<^verbatim>\<open>except (ValueError, RuntimeError)\<close> clause of the loop: an exception of these
  classes becomes an error line and the loop goes on; any other leaves \<^verbatim>\<open>main\<close>.
\<close>

definition on_exception :: "string \<Rightarrow> exn \<Rightarrow> run \<Rightarrow> run \<times> exn option" where
  "on_exception url' e st =
     (if isinstance e ValueError \<or> isinstance e RuntimeError
      then (st\<lparr>errors := errors st @ [''Error fetching '' @ url' @ '': '' @ msg e]\<rparr>, None)
      else (st, Some e))"

text \<open>\<^verbatim>\<open>args.output\<close> when it is truthy: given and not empty.\<close>

definition output_requested :: "args \<Rightarrow> string option" where
  "output_requested a =
     (case arg_output a of None \<Rightarrow> None | Some output' \<Rightarrow> if output' \<noteq> [] then Some output' else None)"

text \<open>The body of the loop for one URL.\<close>

definition process_url ::
  "world \<Rightarrow> args \<Rightarrow> (string \<times> string) list \<Rightarrow> bytes option \<Rightarrow> int \<Rightarrow> string \<Rightarrow> run \<Rightarrow> run \<times> exn option" where
  "process_url W a headers' data max_size url' st =
     (case fetch_url W url' (arg_method a) headers' data (arg_timeout a) max_size (arg_user_agent a) of
        Inl e \<Rightarrow> on_exception url' e st
      | Inr result \<Rightarrow>
          (case output_requested a of
             Some output' \<Rightarrow>
               (let output_file = output_file_name output' (length (arg_urls a)) (length (results st)) in
                case open_wb W output_file of
                  Some e \<Rightarrow> on_exception url' e st
                | None \<Rightarrow>
                    (st\<lparr>files := files st @ [(output_file, content result)],
                        stdout := stdout st @ [''Saved to: '' @ output_file]\<rparr>, None))
           | None \<Rightarrow>
               (case format_output W result (arg_headers a) (arg_raw a) (arg_json a) of
                  Inl e \<Rightarrow> on_exception url' e st
                | Inr formatted \<Rightarrow> (st\<lparr>results := results st @ [formatted]\<rparr>, None))))"

fun process_urls ::
  "world \<Rightarrow> args \<Rightarrow> (string \<times> string) list \<Rightarrow> bytes option \<Rightarrow> int \<Rightarrow> string list \<Rightarrow> run \<Rightarrow> run \<times> exn option" where
  "process_urls W a headers' data max_size [] st = (st, None)"
| "process_urls W a headers' data max_size (url' # rest) st =
     (case process_url W a headers' data max_size url' st of
        (st', Some e) \<Rightarrow> (st', Some e)
      | (st', None) \<Rightarrow> process_urls W a headers' data max_size rest st')"

text \<open>The custom headers: \<open>Inl\<close> is the first header without a colon.\<close>

fun parse_headers :: "string list \<Rightarrow> (string \<times> string) list \<Rightarrow> string + (string \<times> string) list" where
  "parse_headers [] headers' = Inr headers'"
| "parse_headers (header # rest) headers' =
     (if CHR '':'' \<notin> set header then Inl header
      else parse_headers rest
             (AList.update (py_strip (takeWhile (\<lambda>c. c \<noteq> CHR '':'') header))
                (py_strip (tl (dropWhile (\<lambda>c. c \<noteq> CHR '':'') header))) headers'))"

definition divider :: string where
  "divider = newline @ replicate 70 (CHR ''='') @ newline"

text \<open>The printing of the results: alone, between dividers, or as one JSON array.\<close>

definition print_results :: "world \<Rightarrow> bool \<Rightarrow> string list \<Rightarrow> string list" where
  "print_results W json_flag rs =
     (if rs \<noteq> [] then
        (if length rs > 1 \<and> \<not> json_flag then hd rs # concat (map (\<lambda>formatted. [divider, formatted]) (tl rs))
         else if length rs = 1 then [hd rs]
         else if json_flag then [json_dumps W True (JArr (map JStr rs))]
         else [])
      else [])"

definition main :: "world \<Rightarrow> args \<Rightarrow> run \<times> ending" where
  "main W a =
     (case parse_headers (case arg_custom_headers a of None \<Rightarrow> [] | Some hs \<Rightarrow> hs) [] of
        Inl header \<Rightarrow>
          (start\<lparr>stderr := [''Error: Invalid header format: '' @ header,
                             ''Expected format: '' @ [CHR 0x27] @ ''Name: Value'' @ [CHR 0x27]]\<rparr>,
           Exit 1)
      | Inr headers' \<Rightarrow>
          (case parse_size (arg_max_size a) of
             Inl e \<Rightarrow>
               if isinstance e ValueError then (start\<lparr>stderr := [''Error: '' @ msg e]\<rparr>, Exit 1)
               else (start, Uncaught e)
           | Inr max_size \<Rightarrow>
               (let data = (case arg_data a of
                              None \<Rightarrow> None
                            | Some d \<Rightarrow> if d \<noteq> [] then Some (utf8_encode d) else None)
                in case process_urls W a headers' data max_size (arg_urls a) start of
                     (st, Some e) \<Rightarrow> (st, Uncaught e)
                   | (st, None) \<Rightarrow>
                       (st\<lparr>stdout := stdout st @ print_results W (arg_json a) (results st),
                           stderr := stderr st @ errors st\<rparr>,
                        if errors st \<noteq> [] \<and> results st = [] then Exit 1
                        else if errors st \<noteq> [] then Exit 2
                        else Exit 0))))"

section \<open>A sample world\<close>

text \<open>
  A small world for the concrete runs below: one host with a few pages, and the
  answers of the libraries on the byte strings those pages send. On these inputs the
  answers are those of CPython 3.11 with its \<^verbatim>\<open>zlib\<close>, \<^verbatim>\<open>gzip\<close> and codecs.

  \<open>a100\<close> is one hundred letters \<^verbatim>\<open>a\<close>; \<open>a100_gzip\<close>, \<open>a100_zlib\<close> and \<open>a100_raw\<close>
  are its gzip file, its zlib stream and its raw deflate stream.
\<close>

definition a100 :: bytes where
  "a100 = replicate 100 97"

definition a100_gzip :: bytes where
  "a100_gzip = [31, 139, 8, 0, 0, 0, 0, 0, 2, 3, 75, 76, 164, 61, 0, 0, 100, 122, 112, 175, 100, 0, 0, 0]"

definition a100_zlib :: bytes where
  "a100_zlib = [120, 156, 75, 76, 164, 61, 0, 0, 122, 71, 37, 229]"

definition a100_raw :: bytes where
  "a100_raw = [75, 76, 164, 61, 0, 0]"

definition sample_gzip :: "bytes \<Rightarrow> exn + bytes" where
  "sample_gzip z = (if z = a100_gzip then Inr a100 else Inl (Exn BadGzipFile ''Not a gzipped file''))"

definition sample_zlib :: "bytes \<Rightarrow> exn + bytes" where
  "sample_zlib z =
     (if z = a100_zlib then Inr a100
      else Inl (Exn ZlibError ''Error -3 while decompressing data: incorrect header check''))"

definition sample_zlib_raw :: "bytes \<Rightarrow> exn + bytes" where
  "sample_zlib_raw z =
     (if z = a100_raw then Inr a100
      else Inl (Exn ZlibError ''Error -3 while decompressing data: invalid block type''))"

text \<open>
  The codecs of the sample world: ASCII bytes under \<^verbatim>\<open>utf-8\<close>, every byte under
  \<^verbatim>\<open>latin-1\<close>, and the codec \<^verbatim>\<open>undefined\<close> of the standard library, which raises a
  \<^verbatim>\<open>UnicodeError\<close> on every input but the empty one. Empty bytes decode to the empty
  string before the codec is looked up.
\<close>

definition sample_decode :: "bytes \<Rightarrow> string \<Rightarrow> exn + string" where
  "sample_decode bs cs =
     (if bs = [] then Inr []
      else if py_lower cs = ''utf-8'' then
        (if list_all (\<lambda>b. b < 128) bs then Inr (map char_of bs)
         else Inl (Exn UnicodeDecodeError ''invalid start byte''))
      else if py_lower cs = ''latin-1'' then Inr (map char_of bs)
      else if py_lower cs = ''undefined''
      then Inl (Exn UnicodeError
             (''decoding with '' @ [CHR 0x27] @ ''undefined'' @ [CHR 0x27]
              @ '' codec failed (UnicodeError: undefined encoding)''))
      else Inl (Exn LookupError (''unknown encoding: '' @ cs)))"

definition sample_utf8_replace :: "bytes \<Rightarrow> exn + string" where
  "sample_utf8_replace bs = Inr (map (\<lambda>b. if b < 128 then char_of b else CHR ''?'') bs)"

definition sample_scheme :: "string \<Rightarrow> string" where
  "sample_scheme u = (if CHR '':'' \<in> set u then py_lower (takeWhile (\<lambda>c. c \<noteq> CHR '':'') u) else [])"

text \<open>A chunk of \<open>n\<close> bytes of one value.\<close>

definition block :: "nat \<Rightarrow> byte \<Rightarrow> bytes" where
  "block n b = replicate n b"

definition page :: "(string \<times> string) list \<Rightarrow> (exn + bytes) list \<Rightarrow> string \<Rightarrow> response" where
  "page hs reads u = \<lparr>resp_reads = reads, resp_headers = hs, resp_url = u, resp_status = 200\<rparr>"

text \<open>
  The pages: two plain texts, a page that is missing, the gzip file of \<open>a100\<close>, a body
  that claims to be deflated and is not, a text in the charset \<^verbatim>\<open>undefined\<close>, and a
  stream of chunks of 8192 bytes that ends in a broken connection.
\<close>

definition sample_urlopen :: "request \<Rightarrow> int \<Rightarrow> exn + response" where
  "sample_urlopen request timeout =
     (let u = req_url request in
      if u = ''http://h/a'' then
        Inr (page [(''Content-Type'', ''text/plain; charset=utf-8'')] [Inr [104, 101, 108, 108, 111]] u)
      else if u = ''http://h/b'' then
        Inr (page [(''Content-Type'', ''text/plain'')] [Inr [119, 111, 114, 108, 100]] u)
      else if u = ''http://h/missing'' then Inl (Exn HTTPError ''404 Not Found'')
      else if u = ''http://h/bomb'' then
        Inr (page [(''Content-Type'', ''text/plain''), (''Content-Encoding'', ''gzip'')] [Inr a100_gzip] u)
      else if u = ''http://h/junk'' then
        Inr (page [(''Content-Type'', ''text/plain''), (''Content-Encoding'', ''deflate'')]
               [Inr [110, 111, 116, 32, 99, 111, 109, 112, 114, 101, 115, 115, 101, 100]] u)
      else if u = ''http://h/undefined'' then
        Inr (page [(''Content-Type'', ''text/plain; charset=undefined'')] [Inr [97, 98, 99]] u)
      else if u = ''http://h/stream'' then
        Inr (page [(''Content-Type'', ''application/octet-stream'')]
               [Inr (block 8192 0), Inr (block 8192 0), Inr (block 8192 0),
                Inl (Exn OSError ''[Errno 104] Connection reset by peer'')] u)
      else Inl (Exn URLError ''[Errno -2] Name or service not known''))"

definition sample :: world where
  "sample =
     \<lparr>urlparse_scheme = sample_scheme,
      urlopen = sample_urlopen,
      gzip_decompress = sample_gzip,
      zlib_decompress = sample_zlib,
      zlib_decompress_raw = sample_zlib_raw,
      bytes_decode = sample_decode,
      decode_utf8_replace = sample_utf8_replace,
      json_loads = (\<lambda>s. Inl (Exn JSONDecodeError ''Expecting value: line 1 column 1 (char 0)'')),
      json_dumps = (\<lambda>ensure_ascii v. ''null''),
      beautiful_soup = None,
      open_wb = (\<lambda>name. None)\<rparr>"

text \<open>
  A result as \<^verbatim>\<open>fetch_url\<close> builds it for a page of sixty thousand letters \<^verbatim>\<open>e\<close> with
  an acute accent (U+00E9) sent in Latin-1, one byte each.
\<close>

definition accents :: FetchResult where
  "accents =
     \<lparr>url = ''http://h/accents'', status = 200,
      headers = [(''Content-Type'', ''text/plain; charset=latin-1'')],
      content = block 60000 233, content_type = ''text/plain'', charset = ''latin-1''\<rparr>"

text \<open>The lines that stand before the text of that page in the text mode.\<close>

definition accents_header :: string where
  "accents_header =
     ''URL: http://h/accents'' @ [CHR 0x0A] @ ''Status: 200'' @ [CHR 0x0A] @
     ''Content-Type: text/plain'' @ [CHR 0x0A] @ ''Size: 60000 bytes'' @ [CHR 0x0A, CHR 0x0A]"

definition sample_args :: "string list \<Rightarrow> string option \<Rightarrow> args" where
  "sample_args us out =
     \<lparr>arg_urls = us, arg_headers = False, arg_raw = False, arg_json = False,
      arg_method = ''GET'', arg_data = None, arg_custom_headers = None, arg_timeout = 30,
      arg_max_size = ''1048576'', arg_output = out, arg_user_agent = ''web-fetch/1.0''\<rparr>"

section \<open>Properties of the size parser\<close>

lemma is_digit_code: "is_digit c \<Longrightarrow> 48 \<le> (of_char c :: nat) \<and> (of_char c :: nat) \<le> 57"
  by (simp add: is_digit_def less_eq_char_def)

lemma is_digit_not:
  assumes "is_digit c"
  shows "\<not> py_isspace c" "\<not> num_isspace c" "upper_char c = c"
    "c \<noteq> CHR ''_''" "c \<noteq> CHR ''.''" "c \<noteq> CHR ''+''" "c \<noteq> CHR ''-''"
    "c \<noteq> CHR ''K''" "c \<noteq> CHR ''B''" "c \<noteq> CHR ''M''" "c \<noteq> CHR ''G''"
  using is_digit_code[OF assms]
  by (auto simp: py_isspace_def num_isspace_def upper_char_def less_eq_char_def Let_def)


lemma strip_with_id:
  assumes "s \<noteq> []" "\<not> sp (hd s)" "\<not> sp (last s)"
  shows "strip_with sp s = s"
proof -
  have 1: "dropWhile sp s = s" using assms(1,2) by (cases s) auto
  have 2: "dropWhile sp (rev s) = rev s" using assms(1,3) by (cases "rev s") (auto simp: last_rev hd_rev)
  show ?thesis by (simp add: strip_with_def 1 2)
qed

lemma py_upper_id: "list_all (\<lambda>c. upper_char c = c) s \<Longrightarrow> py_upper s = s"
  by (simp add: py_upper_def list_all_iff map_idI)

lemma underscores_ok_none:
  "CHR ''_'' \<notin> set s \<Longrightarrow> prev \<noteq> CHR ''_'' \<Longrightarrow> underscores_ok prev s"
  by (induction s arbitrary: prev) auto

lemma drop_underscores_id: "CHR ''_'' \<notin> set s \<Longrightarrow> drop_underscores s = s"
  by (auto simp: drop_underscores_def filter_id_conv)



lemma round_double_not_NaN: "round_double q \<noteq> NaN"
  by (simp add: round_double_def Let_def)

lemma float_mul_round_not_NaN: "k \<noteq> 0 \<Longrightarrow> float_mul (round_double q) k \<noteq> NaN"
  by (cases "round_double q") (simp_all add: round_double_not_NaN)

lemma int_of_float_not_ValueError:
  "x \<noteq> NaN \<Longrightarrow> int_of_float x = Inl e \<Longrightarrow> \<not> isinstance e ValueError"
  by (cases x) (auto simp: isinstance_def)

lemma step_hit:
  assumes "endswith s suf" "py_float (take (length s - length suf) s) = Inr x" "float_mul x m \<noteq> NaN"
  shows "try_suffixes s ((suf, m) # rest) = Some (int_of_float (float_mul x m))"
proof (cases "int_of_float (float_mul x m)")
  case (Inl e)
  then have "\<not> isinstance e ValueError"
    using int_of_float_not_ValueError[OF assms(3)] by blast
  with Inl assms(1,2) show ?thesis by simp
next
  case (Inr n)
  with assms(1,2) show ?thesis by simp
qed

lemma multipliers_cases:
  assumes "(suf, m) \<in> set multipliers"
  obtains "suf = ''K''" "m = 1024" | "suf = ''KB''" "m = 1024"
    | "suf = ''M''" "m = 1024 * 1024" | "suf = ''MB''" "m = 1024 * 1024"
    | "suf = ''G''" "m = 1024 * 1024 * 1024" | "suf = ''GB''" "m = 1024 * 1024 * 1024"
  using assms by (auto simp: multipliers_def)

lemma try_suffixes_hit:
  assumes "(suf, m) \<in> set multipliers" "py_float p = Inr x" "float_mul x m \<noteq> NaN"
  shows "try_suffixes (p @ suf) multipliers = Some (int_of_float (float_mul x m))"
proof -
  have hit: "try_suffixes (p @ suf) ((suf, m) # rest) = Some (int_of_float (float_mul x m))" for rest
    by (rule step_hit) (simp_all add: endswith_def assms(2,3))
  from assms(1) show ?thesis
  proof (cases rule: multipliers_cases)
    case 1
    show ?thesis unfolding multipliers_def using hit 1 by simp
  next
    case 2
    have "try_suffixes (p @ ''KB'') multipliers = try_suffixes (p @ ''KB'') ((''KB'', 1024) # drop 2 multipliers)"
      by (simp add: multipliers_def endswith_def)
    then show ?thesis using hit 2 by simp
  next
    case 3
    have "try_suffixes (p @ ''M'') multipliers = try_suffixes (p @ ''M'') ((''M'', 1024 * 1024) # drop 3 multipliers)"
      by (simp add: multipliers_def endswith_def)
    then show ?thesis using hit 3 by simp
  next
    case 4
    have "try_suffixes (p @ ''MB'') multipliers = try_suffixes (p @ ''MB'') ((''MB'', 1024 * 1024) # drop 4 multipliers)"
      by (simp add: multipliers_def endswith_def)
    then show ?thesis using hit 4 by simp
  next
    case 5
    have "try_suffixes (p @ ''G'') multipliers = try_suffixes (p @ ''G'') ((''G'', 1024 * 1024 * 1024) # drop 5 multipliers)"
      by (simp add: multipliers_def endswith_def)
    then show ?thesis using hit 5 by simp
  next
    case 6
    have "try_suffixes (p @ ''GB'') multipliers = try_suffixes (p @ ''GB'') ((''GB'', 1024 * 1024 * 1024) # drop 6 multipliers)"
      by (simp add: multipliers_def endswith_def)
    then show ?thesis using hit 6 by simp
  qed
qed

lemma sign_not_digit:
  "\<not> is_digit (CHR ''+'')" "\<not> is_digit (CHR ''-'')" "\<not> is_digit (CHR ''K'')"
  "\<not> is_digit (CHR ''B'')" "\<not> is_digit (CHR ''M'')" "\<not> is_digit (CHR ''G'')"
  by (simp_all add: is_digit_def less_eq_char_def)









lemma py_float_digits:
  assumes "ds \<noteq> []" "list_all is_digit ds"
  shows "py_float ds = Inr (round_double (of_int (digits_val ds)))"
proof -
  have ch: "\<forall>c \<in> set ds. is_digit c" using assms(2) by (simp add: list_all_iff)
  have hd: "is_digit (hd ds)" and la: "is_digit (last ds)" using ch assms(1) by simp_all
  have st: "strip_with num_isspace ds = ds"
    using hd la assms(1) by (intro strip_with_id) (auto simp: is_digit_not)
  have nu: "CHR ''_'' \<notin> set ds" using ch is_digit_not(4) by blast
  have sg: "split_sign ds = (False, ds)"
    using hd assms(1) by (cases ds) (auto simp: split_sign_def sign_not_digit)
  have up: "py_upper ds = ds"
    using ch by (intro py_upper_id) (auto simp: list_all_iff is_digit_not)
  have nd: "\<not> is_digit (CHR ''I'')" "\<not> is_digit (CHR ''N'')"
    by (simp_all add: is_digit_def less_eq_char_def)
  have w: "ds \<noteq> ''INF''" "ds \<noteq> ''INFINITY''" "ds \<noteq> ''NAN''"
    using hd nd by auto
  have tw: "takeWhile is_digit ds = ds" "dropWhile is_digit ds = []"
    using ch by simp_all
  have pd: "parse_decimal ds = Some (of_int (digits_val ds))"
    using assms(1) by (simp add: parse_decimal_def parse_exponent_def Let_def tw)
  show ?thesis
    using w by (simp add: py_float_def Let_def st underscores_ok_none[OF nu] drop_underscores_id[OF nu] sg up pd)
qed

lemma parse_size_digits_suffix:
  assumes "ds \<noteq> []" "list_all is_digit ds" "(suf, m) \<in> set multipliers"
  shows "parse_size (ds @ suf) = int_of_float (float_mul (round_double (of_int (digits_val ds))) m)"
proof -
  have ch: "\<forall>c \<in> set ds. is_digit c" using assms(2) by (simp add: list_all_iff)
  have sufc: "suf \<noteq> [] \<and> \<not> py_isspace (last suf) \<and> py_upper suf = suf"
    using assms(3) by (cases rule: multipliers_cases) (simp_all add: py_isspace_def py_upper_def upper_char_def less_eq_char_def)
  have hd: "is_digit (hd (ds @ suf))" using ch assms(1) by simp
  have st: "py_strip (ds @ suf) = ds @ suf"
    unfolding py_strip_def using hd sufc by (intro strip_with_id) (auto simp: is_digit_not)
  have "py_upper ds = ds"
    using ch by (intro py_upper_id) (auto simp: list_all_iff is_digit_not)
  then have up: "py_upper (ds @ suf) = ds @ suf"
    using sufc by (simp add: py_upper_def)
  have m0: "m \<noteq> 0" using assms(3) by (cases rule: multipliers_cases) simp_all
  have "try_suffixes (ds @ suf) multipliers =
        Some (int_of_float (float_mul (round_double (of_int (digits_val ds))) m))"
    by (rule try_suffixes_hit[OF assms(3) py_float_digits[OF assms(1,2)] float_mul_round_not_NaN[OF m0]])
  then show ?thesis
    using st up by (simp add: parse_size_def)
qed

lemma only_KB: "try_suffixes (p @ ''KB'') multipliers = try_suffixes (p @ ''KB'') [(''KB'', 1024)]"
  by (simp add: multipliers_def endswith_def split: sum.splits)

lemma only_MB: "try_suffixes (p @ ''MB'') multipliers = try_suffixes (p @ ''MB'') [(''MB'', 1024 * 1024)]"
  by (simp add: multipliers_def endswith_def split: sum.splits)

lemma only_GB:
  "try_suffixes (p @ ''GB'') multipliers = try_suffixes (p @ ''GB'') [(''GB'', 1024 * 1024 * 1024)]"
  by (simp add: multipliers_def endswith_def split: sum.splits)

lemma parse_size_1M: "parse_size ''1M'' = Inr 1048576"
  by code_simp

lemma parse_size_500K: "parse_size ''500K'' = Inr 512000"
  by code_simp

lemma parse_size_10MB: "parse_size ''10MB'' = Inr 10485760"
  by code_simp

lemma parse_size_123: "parse_size ''123'' = Inr 123"
  by code_simp

lemma parse_size_bogus: "parse_size ''bogus'' = Inl (Exn ValueError ''Invalid size format: BOGUS'')"
  by code_simp




text \<open>
  Claim C6. \<^verbatim>\<open>parse_size\<close> maps "1M" to 1048576, "500K" to 512000, "10MB" to 10485760
  and "123" to 123, and fails on "bogus" with the \<^verbatim>\<open>ValueError\<close> whose text is
  "Invalid size format: BOGUS". A string that ends in a two-letter suffix is handled by
  the table entry of that suffix alone, whatever stands before it: the entries of the
  one-letter suffixes do not match it, so no shorter suffix is stripped first. For
  every string of digits followed by a suffix of the table, the result is the number,
  as a float, times the multiplier of that suffix, converted by \<^verbatim>\<open>int\<close>.
\<close>

theorem parse_size_suffixes:
  "parse_size ''1M'' = Inr 1048576 \<and>
   parse_size ''500K'' = Inr 512000 \<and>
   parse_size ''10MB'' = Inr 10485760 \<and>
   parse_size ''123'' = Inr 123 \<and>
   parse_size ''bogus'' = Inl (Exn ValueError ''Invalid size format: BOGUS'') \<and>
   (\<forall>p. try_suffixes (p @ ''KB'') multipliers = try_suffixes (p @ ''KB'') [(''KB'', 1024)]) \<and>
   (\<forall>p. try_suffixes (p @ ''MB'') multipliers = try_suffixes (p @ ''MB'') [(''MB'', 1024 * 1024)]) \<and>
   (\<forall>p. try_suffixes (p @ ''GB'') multipliers =
        try_suffixes (p @ ''GB'') [(''GB'', 1024 * 1024 * 1024)]) \<and>
   (\<forall>ds suf m. ds \<noteq> [] \<and> list_all is_digit ds \<and> (suf, m) \<in> set multipliers \<longrightarrow>
        parse_size (ds @ suf) = int_of_float (float_mul (round_double (of_int (digits_val ds))) m))"
  using parse_size_1M parse_size_500K parse_size_10MB parse_size_123 parse_size_bogus
    only_KB only_MB only_GB parse_size_digits_suffix
  by blast

theorem parse_size_suffixes_witness:
  "''42'' \<noteq> [] \<and> list_all is_digit ''42'' \<and> (''GB'', 1024 * 1024 * 1024) \<in> set multipliers \<and>
   parse_size ''42GB'' = Inr 45097156608"
proof -
  have h: "''42'' \<noteq> [] \<and> list_all is_digit ''42'' \<and> (''GB'', 1024 * 1024 * 1024) \<in> set multipliers"
    by (simp add: is_digit_def less_eq_char_def multipliers_def)
  have v: "int_of_float (float_mul (round_double (of_int (digits_val ''42''))) (1024 * 1024 * 1024))
           = Inr 45097156608"
    by code_simp
  from parse_size_suffixes h
  have "parse_size (''42'' @ ''GB'') =
        int_of_float (float_mul (round_double (of_int (digits_val ''42''))) (1024 * 1024 * 1024))"
    by blast
  with h v show ?thesis by simp
qed



section \<open>Properties of the decompressor and of the fetcher\<close>







lemma read_loop_invariant:
  "read_loop max_size reads buffer tot = (buffer', tot', None) \<Longrightarrow>
   tot = int (length buffer) \<Longrightarrow> int (length buffer) \<le> max 0 max_size \<Longrightarrow>
   tot' = int (length buffer') \<and> int (length buffer') \<le> max 0 max_size"
proof (induction max_size reads buffer tot rule: read_loop.induct)
  case (1 max_size buffer total_size)
  then show ?case by auto
next
  case (2 max_size e reads buffer total_size)
  then show ?case by auto
next
  case (3 max_size chunk reads buffer total_size)
  show ?case
  proof (cases "chunk = []")
    case True
    with "3.prems" show ?thesis by auto
  next
    case False
    show ?thesis
    proof (cases "total_size + int (length chunk) > max_size")
      case True
      with False "3.prems" show ?thesis by auto
    next
      case over: False
      with False "3.prems"
      have "read_loop max_size reads (buffer @ chunk) (total_size + int (length chunk)) = (buffer', tot', None)"
        by simp
      from "3.IH"[OF False over this] "3.prems"(2) over
      show ?thesis by simp
    qed
  qed
qed






lemma length_block: "length (block n b) = n"
  by (simp add: block_def)

lemma block_empty: "(block n b = []) = (n = 0)" "([] = block n b) = (n = 0)"
  by (auto simp add: block_def)



lemma fetch_try_result:
  assumes "fetch_try W request t max_size = Inr r"
  shows "\<exists>response body tot. urlopen W request t = Inr response \<and>
           read_loop max_size (resp_reads response) [] 0 = (body, tot, None) \<and>
           (let encoding = py_lower (header_get (resp_headers response) ''Content-Encoding'' []) in
            if encoding = [] then content r = body
            else decompress_content W body encoding = Inr (content r))"
  using assms
  by (auto simp: fetch_try_def Let_def split: sum.splits prod.splits option.splits if_splits)

text \<open>
  Claim C2, as amended. When \<^verbatim>\<open>fetch_url\<close> returns a result under the cap
  \<open>max_size\<close>, the body as it was transferred has at most \<open>max_size\<close> bytes (none when
  the cap is negative). The content of the result is that body, and so within the
  cap, when the response names no content encoding or one other than gzip and
  deflate; under gzip or deflate it is what the decompressor makes of that body, and
  the cap is not checked again.
\<close>

theorem fetch_url_transfer_bounded:
  assumes "fetch_url W u m hs d t max_size ua = Inr r"
  shows "\<exists>response body.
           urlopen W (prepare_request u m hs d ua) t = Inr response \<and>
           read_loop max_size (resp_reads response) [] 0 = (body, int (length body), None) \<and>
           int (length body) \<le> max 0 max_size \<and>
           (let encoding = py_lower (header_get (resp_headers response) ''Content-Encoding'' []) in
            if encoding = ''gzip'' then gzip_decompress W body = Inr (content r)
            else if encoding = ''deflate'' then decompress_content W body ''deflate'' = Inr (content r)
            else content r = body \<and> int (length (content r)) \<le> max 0 max_size)"
proof -
  from assms have ft: "fetch_try W (prepare_request u m hs d ua) t max_size = Inr r"
    by (auto simp: fetch_url_def Let_def split: sum.splits if_splits)
  from fetch_try_result[OF ft] obtain response body tot where
    op: "urlopen W (prepare_request u m hs d ua) t = Inr response" and
    rl: "read_loop max_size (resp_reads response) [] 0 = (body, tot, None)" and
    en: "let encoding = py_lower (header_get (resp_headers response) ''Content-Encoding'' []) in
            if encoding = [] then content r = body
            else decompress_content W body encoding = Inr (content r)"
    by blast
  from read_loop_invariant[OF rl] have inv: "tot = int (length body)" "int (length body) \<le> max 0 max_size"
    by simp_all
  have "let encoding = py_lower (header_get (resp_headers response) ''Content-Encoding'' []) in
            if encoding = ''gzip'' then gzip_decompress W body = Inr (content r)
            else if encoding = ''deflate'' then decompress_content W body ''deflate'' = Inr (content r)
            else content r = body \<and> int (length (content r)) \<le> max 0 max_size"
    using en inv(2) by (auto simp: Let_def decompress_content_def split: if_splits)
  with op rl inv show ?thesis by blast
qed


theorem fetch_url_transfer_bounded_witness:
  "fetch_url sample ''http://h/a'' ''GET'' [] None 30 3 ''web-fetch/1.0'' =
     Inl (Exn RuntimeError ''Response size exceeds maximum (3 bytes)'') \<and>
   fetch_url sample ''http://h/a'' ''GET'' [] None 30 5 ''web-fetch/1.0'' =
     Inr \<lparr>url = ''http://h/a'', status = 200,
          headers = [(''Content-Type'', ''text/plain; charset=utf-8'')],
          content = [104, 101, 108, 108, 111], content_type = ''text/plain'', charset = ''utf-8''\<rparr> \<and>
   int (length [104, 101, 108, 108, 111 :: nat]) \<le> max 0 5"
proof -
  let ?r = "\<lparr>url = ''http://h/a'', status = 200,
          headers = [(''Content-Type'', ''text/plain; charset=utf-8'')],
          content = [104, 101, 108, 108, 111], content_type = ''text/plain'', charset = ''utf-8''\<rparr>"
  have small: "fetch_url sample ''http://h/a'' ''GET'' [] None 30 3 ''web-fetch/1.0'' =
     Inl (Exn RuntimeError ''Response size exceeds maximum (3 bytes)'')"
    by code_simp
  have h: "fetch_url sample ''http://h/a'' ''GET'' [] None 30 5 ''web-fetch/1.0'' = Inr ?r"
    by code_simp
  have op: "urlopen sample (prepare_request ''http://h/a'' ''GET'' [] None ''web-fetch/1.0'') 30 =
      Inr (page [(''Content-Type'', ''text/plain; charset=utf-8'')] [Inr [104, 101, 108, 108, 111]] ''http://h/a'')"
    by (simp add: sample_def sample_urlopen_def prepare_request_def Let_def)
  have enc: "py_lower (header_get [(''Content-Type'', ''text/plain; charset=utf-8'')] ''Content-Encoding'' []) = []"
    by code_simp
  from fetch_url_transfer_bounded[OF h]
  obtain response body where
    op': "urlopen sample (prepare_request ''http://h/a'' ''GET'' [] None ''web-fetch/1.0'') 30 = Inr response" and
    en: "let encoding = py_lower (header_get (resp_headers response) ''Content-Encoding'' []) in
            if encoding = ''gzip'' then gzip_decompress sample body = Inr (content ?r)
            else if encoding = ''deflate'' then decompress_content sample body ''deflate'' = Inr (content ?r)
            else content ?r = body \<and> int (length (content ?r)) \<le> max 0 5"
    by (elim exE conjE) (rule that, assumption+)
  from op op' have "resp_headers response = [(''Content-Type'', ''text/plain; charset=utf-8'')]"
    by (auto simp: page_def)
  with en enc have "int (length (content ?r)) \<le> max 0 5"
    by (auto simp: Let_def)
  then have "int (length [104, 101, 108, 108, 111 :: nat]) \<le> max 0 5"
    by simp
  with small h show ?thesis by blast
qed

text \<open>
  Claim C2, as stated, fails: the page \<^verbatim>\<open>http://h/bomb\<close> sends the 24 bytes of a gzip
  file under a cap of 50 bytes, and the content of the result is the 100 bytes they
  inflate to.
\<close>

theorem fetch_url_content_over_cap:
  "fetch_url sample ''http://h/bomb'' ''GET'' [] None 30 50 ''web-fetch/1.0'' =
     Inr \<lparr>url = ''http://h/bomb'', status = 200,
          headers = [(''Content-Type'', ''text/plain''), (''Content-Encoding'', ''gzip'')],
          content = replicate 100 97, content_type = ''text/plain'', charset = ''utf-8''\<rparr> \<and>
   length a100_gzip = 24 \<and>
   50 < int (length (replicate 100 (97::nat)))"
  by code_simp

section \<open>Properties of the batch\<close>

text \<open>
  Two facts about the loop of \<^verbatim>\<open>main\<close>, for every world and every list of URLs. When
  results are saved (\<^verbatim>\<open>--output\<close>), the list \<^verbatim>\<open>results\<close> does not change, and every
  file written has the one name that the index \<^verbatim>\<open>len(results)\<close> at the start gives.
  When results are rendered and the loop runs to its end, every URL adds one entry to
  \<^verbatim>\<open>results\<close> or to \<^verbatim>\<open>errors\<close>.
\<close>

lemma on_exception_results: "on_exception u e st = (st', x) \<Longrightarrow> results st' = results st \<and> files st' = files st"
  by (auto simp: on_exception_def split: if_splits)

lemma process_url_saving:
  assumes "output_requested a = Some out" "process_url W a hs d m u st = (st', x)"
  shows "results st' = results st \<and>
         (files st' = files st \<or>
          (\<exists>body. files st' = files st @ [(output_file_name out (length (arg_urls a)) (length (results st)), body)]))"
  using assms
  by (auto simp: process_url_def Let_def dest: on_exception_results split: sum.splits option.splits)

lemma process_urls_saving:
  assumes "output_requested a = Some out" "process_urls W a hs d m us st = (st', x)"
  shows "results st' = results st \<and>
         set (map fst (files st')) \<subseteq>
           set (map fst (files st)) \<union> {output_file_name out (length (arg_urls a)) (length (results st))}"
  using assms(2)
proof (induction us arbitrary: st)
  case Nil
  then show ?case by auto
next
  case (Cons u us)
  obtain st1 x1 where p: "process_url W a hs d m u st = (st1, x1)" by (cases "process_url W a hs d m u st")
  from process_url_saving[OF assms(1) p]
  have r: "results st1 = results st" and
    f: "set (map fst (files st1)) \<subseteq>
        set (map fst (files st)) \<union> {output_file_name out (length (arg_urls a)) (length (results st))}"
    by auto
  show ?case
  proof (cases x1)
    case None
    with Cons.prems p have "process_urls W a hs d m us st1 = (st', x)" by simp
    from Cons.IH[OF this] have r': "results st' = results st1" and
      f': "set (map fst (files st')) \<subseteq>
        set (map fst (files st1)) \<union> {output_file_name out (length (arg_urls a)) (length (results st1))}"
      by blast+
    from f f' r have "set (map fst (files st')) \<subseteq>
        set (map fst (files st)) \<union> {output_file_name out (length (arg_urls a)) (length (results st))}"
      by (simp only:) blast
    with r r' show ?thesis by simp
  next
    case (Some e)
    with Cons.prems p have "st' = st1" by simp
    with r f show ?thesis by simp
  qed
qed

lemma process_url_rendering:
  assumes "output_requested a = None" "process_url W a hs d m u st = (st', None)"
  shows "length (results st') + length (errors st') = Suc (length (results st) + length (errors st))"
  using assms
  by (auto simp: process_url_def on_exception_def Let_def split: sum.splits option.splits if_splits)

lemma process_urls_rendering:
  assumes "output_requested a = None" "process_urls W a hs d m us st = (st', None)"
  shows "length (results st') + length (errors st') = length (results st) + length (errors st) + length us"
  using assms(2)
proof (induction us arbitrary: st)
  case Nil
  then show ?case by simp
next
  case (Cons u us)
  obtain st1 x1 where p: "process_url W a hs d m u st = (st1, x1)" by (cases "process_url W a hs d m u st")
  with Cons.prems have x1: "x1 = None" by (cases x1) auto
  with Cons.prems p have "process_urls W a hs d m us st1 = (st', None)" by simp
  from Cons.IH[OF this] process_url_rendering[OF assms(1) p[unfolded x1]]
  show ?case by simp
qed

lemma process_urls_caught:
  assumes "fetch_url W u (arg_method a) hs d (arg_timeout a) m (arg_user_agent a) = Inl e"
    and "isinstance e ValueError \<or> isinstance e RuntimeError"
  shows "process_urls W a hs d m (u # us) st =
         process_urls W a hs d m us (st\<lparr>errors := errors st @ [''Error fetching '' @ u @ '': '' @ msg e]\<rparr>)"
  using assms by (simp add: process_url_def on_exception_def)

lemma process_urls_uncaught:
  assumes "fetch_url W u (arg_method a) hs d (arg_timeout a) m (arg_user_agent a) = Inl e"
    and "\<not> isinstance e ValueError" "\<not> isinstance e RuntimeError"
  shows "process_urls W a hs d m (u # us) st = (st, Some e)"
  using assms by (simp add: process_url_def on_exception_def)

text \<open>
  Claim C5. The claim has every failure of one URL, a failure of decompression inside
  the fetch included, recorded as one line "Error fetching ..." while the batch goes
  on. The code does so for the exceptions of the classes \<^verbatim>\<open>ValueError\<close> and
  \<^verbatim>\<open>RuntimeError\<close> (lemma \<open>process_urls_caught\<close>). At the batch of the page \<^verbatim>\<open>http://h/junk\<close>,
  whose body is announced as deflate and is not, followed by the page
  \<^verbatim>\<open>http://h/a\<close>, the \<^verbatim>\<open>zlib.error\<close> of the retry passes the \<^verbatim>\<open>except\<close> clauses of
  \<^verbatim>\<open>fetch_url\<close> and of \<^verbatim>\<open>main\<close>: the run ends on it, no error line is recorded and the
  second URL is never fetched.
\<close>

theorem zlib_error_aborts_batch:
  "main sample (sample_args [''http://h/junk'', ''http://h/a''] None) =
     (\<lparr>results = [], errors = [], stdout = [], stderr = [], files = []\<rparr>,
      Uncaught (Exn ZlibError ''Error -3 while decompressing data: invalid block type''))"
  by code_simp

text \<open>
  Claim C1. The claim has the exit status 2 when some URLs succeeded and some failed,
  also when the successes went to files. At the batch of the page \<^verbatim>\<open>http://h/a\<close>,
  which is fetched and saved, and a page that is missing, under \<^verbatim>\<open>--output out.txt\<close>,
  the code exits with status 1: a saved result is not appended to \<^verbatim>\<open>results\<close>, and the
  test \<^verbatim>\<open>errors and not results\<close> takes the batch for a total failure.
\<close>

theorem saved_success_exits_1:
  "main sample (sample_args [''http://h/a'', ''http://h/missing''] (Some ''out.txt'')) =
     (\<lparr>results = [],
       errors = [''Error fetching http://h/missing: HTTP 404 Not Found: http://h/missing''],
       stdout = [''Saved to: out_0.txt''],
       stderr = [''Error fetching http://h/missing: HTTP 404 Not Found: http://h/missing''],
       files = [(''out_0.txt'', [104, 101, 108, 108, 111])]\<rparr>,
      Exit 1)"
  by code_simp

text \<open>
  Claim C4. The claim has two URLs saved under one \<^verbatim>\<open>--output\<close> path written to two
  files whose names differ by an index. At the batch of the pages \<^verbatim>\<open>http://h/a\<close> and
  \<^verbatim>\<open>http://h/b\<close> under \<^verbatim>\<open>--output page.html\<close>, both are written to
  \<^verbatim>\<open>page_0.html\<close>, the second over the first: the index is \<^verbatim>\<open>len(results)\<close>, and
  \<^verbatim>\<open>results\<close> does not grow when results are saved.
\<close>

theorem same_output_same_file:
  "main sample (sample_args [''http://h/a'', ''http://h/b''] (Some ''page.html'')) =
     (\<lparr>results = [], errors = [],
       stdout = [''Saved to: page_0.html'', ''Saved to: page_0.html''],
       stderr = [],
       files = [(''page_0.html'', [104, 101, 108, 108, 111]),
                (''page_0.html'', [119, 111, 114, 108, 100])]\<rparr>,
      Exit 0)"
  by code_simp

text \<open>
  Claim C8. The claim has the decoding succeed for every declared charset. For the
  charset \<^verbatim>\<open>undefined\<close>, a codec of the standard library that raises a
  \<^verbatim>\<open>UnicodeError\<close> on every input but the empty one, the first \<^verbatim>\<open>except\<close> clause
  (\<^verbatim>\<open>UnicodeDecodeError\<close>, \<^verbatim>\<open>LookupError\<close>) does not match, no fallback is tried and
  \<^verbatim>\<open>format_output\<close> raises to its caller.
\<close>

theorem undefined_charset_raises:
  "format_output sample
     \<lparr>url = ''http://h/undefined'', status = 200,
      headers = [(''Content-Type'', ''text/plain; charset=undefined'')],
      content = [97, 98, 99], content_type = ''text/plain'', charset = ''undefined''\<rparr>
     False False False =
   Inl (Exn UnicodeError
     (''decoding with '' @ [CHR 0x27] @ ''undefined'' @ [CHR 0x27]
       @ '' codec failed (UnicodeError: undefined encoding)''))"
  by code_simp

lemma undefined_fetch:
  "fetch_url sample ''http://h/undefined'' ''GET'' [] None 30 1048576 ''web-fetch/1.0'' =
   Inr \<lparr>url = ''http://h/undefined'', status = 200,
      headers = [(''Content-Type'', ''text/plain; charset=undefined'')],
      content = [97, 98, 99], content_type = ''text/plain'', charset = ''undefined''\<rparr>"
  by code_simp


section \<open>Properties of the renderer\<close>

lemma marker_text:
  "newline @ newline @ ''... (truncated, showing first '' @ str_int (int OUTPUT_TRUNCATE_SIZE) @ '' bytes)'' =
   [CHR 0x0A, CHR 0x0A] @ ''... (truncated, showing first 51200 bytes)''"
  by code_simp

lemma truncate_text_long:
  "OUTPUT_TRUNCATE_SIZE < length t \<Longrightarrow>
   truncate_text t = take 51200 t @ [CHR 0x0A, CHR 0x0A] @ ''... (truncated, showing first 51200 bytes)''"
  using marker_text by (simp add: truncate_text_def OUTPUT_TRUNCATE_SIZE_def)

lemma truncate_text_short: "length t \<le> OUTPUT_TRUNCATE_SIZE \<Longrightarrow> truncate_text t = t"
  by (simp add: truncate_text_def)

lemma accents_decode:
  "decode_text sample (block 60000 233) ''latin-1'' = Inr (replicate 60000 (CHR 0xE9))"
proof -
  have l: "py_lower ''latin-1'' = ''latin-1''" by code_simp
  have c: "char_of (233::nat) = CHR 0xE9" by code_simp
  have "sample_decode (block 60000 233) ''latin-1'' = Inr (map char_of (block 60000 233))"
    by (simp add: sample_decode_def l block_empty)
  also have "map char_of (block 60000 233) = replicate 60000 (CHR 0xE9)"
    by (simp add: block_def c)
  finally show ?thesis
    by (simp add: decode_text_def sample_def)
qed

lemma accents_head:
  "head_parts accents False False =
   [''URL: http://h/accents'', ''Status: 200'', ''Content-Type: text/plain'', ''Size: 60000 bytes'']"
proof -
  have 1: "str_int 200 = ''200''" by code_simp
  have 2: "str_int 60000 = ''60000''" by code_simp
  show ?thesis
    by (simp add: head_parts_def accents_def length_block 1 2)
qed

lemma accents_is_text: "is_text_type ''text/plain''"
  by code_simp

lemma accents_header_length: "length accents_header = 78"
  by (simp add: accents_header_def)

lemma utf8_encode_append: "utf8_encode (s @ t) = utf8_encode s @ utf8_encode t"
  by (simp add: utf8_encode_def)

lemma length_concat_replicate: "length (concat (replicate n xs)) = n * length xs"
  by (induction n) simp_all

lemma utf8_encode_accents: "length (utf8_encode (replicate n (CHR 0xE9))) = 2 * n"
proof -
  have "(of_char (CHR 0xE9) :: nat) = 233" by simp
  then show ?thesis
    by (simp add: utf8_encode_def Let_def length_concat_replicate)
qed

lemma utf8_encode_header: "length (utf8_encode accents_header) = 78"
  by code_simp

text \<open>
  Claim C9. The claim has a text output over 50 KiB cut to 50 KiB, with a marker that
  states the number of bytes shown. The code compares and cuts \<^verbatim>\<open>len(result_text)\<close>,
  a number of characters. For the page of sixty thousand accented letters, the output
  is cut to 51200 characters, which are 102322 bytes when written as UTF-8, and the
  marker says 51200 bytes.
\<close>

theorem truncation_counts_characters:
  "format_output sample accents False False False =
     Inr (accents_header @ replicate 51122 (CHR 0xE9)
          @ [CHR 0x0A, CHR 0x0A] @ ''... (truncated, showing first 51200 bytes)'') \<and>
   length (accents_header @ replicate 51122 (CHR 0xE9)) = 51200 \<and>
   length (utf8_encode (accents_header @ replicate 51122 (CHR 0xE9))) = 102322"
proof -
  have tp: "text_parts sample accents False t = Inr [t]" for t
    by (simp add: text_parts_def accents_def)
  have fields: "content accents = block 60000 233" "charset accents = ''latin-1''"
    "content_type accents = ''text/plain''"
    by (simp_all add: accents_def)
  have len: "OUTPUT_TRUNCATE_SIZE < length (accents_header @ replicate 60000 (CHR 0xE9))"
    by (simp add: OUTPUT_TRUNCATE_SIZE_def accents_header_length)
  have cut: "take 51200 (accents_header @ replicate 60000 (CHR 0xE9)) = accents_header @ replicate 51122 (CHR 0xE9)"
    by (simp add: accents_header_length)
  have "format_output sample accents False False False =
        Inr (truncate_text (accents_header @ replicate 60000 (CHR 0xE9)))"
    using accents_decode accents_is_text
    by (simp add: format_output_def Let_def accents_head tp fields accents_header_def newline_def)
  then have 1: "format_output sample accents False False False =
     Inr (accents_header @ replicate 51122 (CHR 0xE9)
          @ [CHR 0x0A, CHR 0x0A] @ ''... (truncated, showing first 51200 bytes)'')"
    by (simp only: truncate_text_long[OF len] cut append_assoc)
  have 2: "length (accents_header @ replicate 51122 (CHR 0xE9)) = 51200"
    by (simp add: accents_header_length)
  have 3: "length (utf8_encode (accents_header @ replicate 51122 (CHR 0xE9))) = 102322"
    by (simp add: utf8_encode_append utf8_encode_accents utf8_encode_header)
  from 1 2 3 show ?thesis by blast
qed


lemma decode_text_succeeds:
  assumes "\<And>e. bytes_decode W bs cs = Inl e \<Longrightarrow> isinstance e UnicodeDecodeError \<or> isinstance e LookupError"
  shows "\<exists>text. decode_text W bs cs = Inr text"
  using assms by (auto simp: decode_text_def split: sum.splits)

lemma format_output_json_not_truncated:
  assumes "format_output W result show_headers raw True = Inr out"
  shows "\<exists>ensure_ascii v. out = json_dumps W ensure_ascii v"
  using assms
  by (auto simp: format_output_def Let_def split: if_splits sum.splits)


end
